theory Spec2Isabelle
  imports Complex_Main
begin

section \<open>Strings, files and the extracted record\<close>

text \<open>
  File names are JavaScript strings. The handlers only ever lower-case a name and test
  its suffix against \<open>.pdf\<close>, \<open>.xlsx\<close> and \<open>.xls\<close>. A \<open>char\<close> stands for a code unit
  below 256 (Latin-1); \<open>toLowerCase\<close> maps \<open>A..Z\<close> and the upper-case letters of the
  Latin-1 block to their lower-case partners and leaves every other unit alone, which is
  what \<open>String.prototype.toLowerCase\<close> does on that range. No code unit outside that
  range lower-cases to one of the characters of the three extensions, so the suffix
  tests lose nothing by the restriction.
\<close>

definition toLowerCaseChar :: "char \<Rightarrow> char" where
  "toLowerCaseChar c =
     (let n = (of_char c :: nat)
      in if (65 \<le> n \<and> n \<le> 90) \<or> (192 \<le> n \<and> n \<le> 222 \<and> n \<noteq> 215)
         then char_of (n + 32) else c)"

definition toLowerCase :: "string \<Rightarrow> string" where
  "toLowerCase s = map toLowerCaseChar s"

text \<open>\<open>s.endsWith(searchString)\<close>: false when the search string is longer than \<open>s\<close>.\<close>

definition endsWith :: "string \<Rightarrow> string \<Rightarrow> bool" where
  "endsWith s searchString =
     (length searchString \<le> length s \<and>
      drop (length s - length searchString) s = searchString)"

definition startsWith :: "string \<Rightarrow> string \<Rightarrow> bool" where
  "startsWith s searchString = (take (length searchString) s = searchString)"

text \<open>A browser \<open>File\<close>: its display name and its bytes.\<close>

record File =
  name :: string
  bytes :: "nat list"

text \<open>
  \<open>ShipmentData\<close> of \<open>ExtractionForm.tsx\<close>: ten nullable fields. The numbers are only
  passed through (never computed with), so they are modelled as reals.
\<close>

record ShipmentData =
  bill_of_lading_number :: "string option"
  container_number :: "string option"
  consignee_name :: "string option"
  consignee_address :: "string option"
  date_of_export :: "string option"
  line_items_count :: "real option"
  total_gross_weight :: "real option"
  total_invoice_amount :: "real option"
  average_gross_weight :: "real option"
  average_price :: "real option"

section \<open>The HTTP client\<close>

text \<open>
  A request body is either the multipart form built by \<open>handleFilesSelected\<close> (the
  parts in the order they were appended) or the JSON record sent by the save action.
\<close>

datatype body = FormData "(string \<times> File) list" | Json ShipmentData

record request =
  url :: string
  payload :: body
  headers :: "(string \<times> string) list"

text \<open>
  \<open>main.tsx\<close>, line 8:
  \<^verbatim>\<open>axios.defaults.baseURL = import.meta.env.VITE_API_URL || 'http://localhost:8080'\<close>.
  The environment variable is absent (\<open>None\<close>) or a string; the empty string is falsy.
\<close>

definition configuredBaseURL :: "string option \<Rightarrow> string" where
  "configuredBaseURL VITE_API_URL =
     (case VITE_API_URL of
        None \<Rightarrow> ''http://localhost:8080''
      | Some v \<Rightarrow> if v = [] then ''http://localhost:8080'' else v)"

text \<open>
  How the axios library resolves the URL of a request against \<open>defaults.baseURL\<close>
  (its \<open>isAbsoluteURL\<close>, \<open>combineURLs\<close> and \<open>buildFullPath\<close>): a URL that starts with
  a scheme followed by \<open>://\<close>, or with \<open>//\<close>, is absolute and is used as it is; any
  other URL is appended to the base, with exactly one slash between the two.
\<close>

definition isSchemeChar :: "char \<Rightarrow> bool" where
  "isSchemeChar c =
     (let n = (of_char c :: nat)
      in (65 \<le> n \<and> n \<le> 90) \<or> (97 \<le> n \<and> n \<le> 122) \<or> (48 \<le> n \<and> n \<le> 57)
         \<or> c = CHR ''+'' \<or> c = CHR ''-'' \<or> c = CHR ''.'')"

definition isSchemeStart :: "char \<Rightarrow> bool" where
  "isSchemeStart c =
     (let n = (of_char c :: nat) in (65 \<le> n \<and> n \<le> 90) \<or> (97 \<le> n \<and> n \<le> 122))"

definition isAbsoluteURL :: "string \<Rightarrow> bool" where
  "isAbsoluteURL u =
     (startsWith u ''//'' \<or>
      (case u of
         [] \<Rightarrow> False
       | c # cs \<Rightarrow> isSchemeStart c \<and> startsWith (dropWhile isSchemeChar cs) ''://''))"

definition combineURLs :: "string \<Rightarrow> string \<Rightarrow> string" where
  "combineURLs baseURL relativeURL =
     (if relativeURL = [] then baseURL
      else (if endsWith baseURL ''//'' then take (length baseURL - 2) baseURL
            else if endsWith baseURL ''/'' then take (length baseURL - 1) baseURL
            else baseURL)
           @ ''/'' @ dropWhile (\<lambda>c. c = CHR ''/'') relativeURL)"

definition buildFullPath :: "string \<Rightarrow> string \<Rightarrow> string" where
  "buildFullPath baseURL requestedURL =
     (if baseURL \<noteq> [] \<and> \<not> isAbsoluteURL requestedURL
      then combineURLs baseURL requestedURL
      else requestedURL)"

section \<open>The application shell (\<open>App.tsx\<close>)\<close>

text \<open>
  The four \<open>useState\<close> cells of \<open>App\<close>. \<open>activeFileIndex\<close> is only ever assigned an
  index produced by \<open>files.map\<close>, so it is a natural number.
\<close>

record app_state =
  files :: "File list"
  activeFileIndex :: nat
  data :: "ShipmentData option"
  isLoading :: bool

text \<open>
  What the shell can observe and cause beyond its own state: the blocking \<open>alert\<close>
  dialogs shown, the lines written by \<open>console.error\<close>, the requests handed to the
  network (oldest first), the number of extraction requests that have not settled yet,
  and the axios base URL configured at start-up.
\<close>

record world = app_state +
  alerts :: "string list"
  console :: "string list"
  network :: "request list"
  inflight :: nat
  baseURL :: string

text \<open>
  A handler is a straight line of effects. It is modelled as the list of the effects it
  performs, in program order; \<open>exec\<close> performs one of them on the world.
\<close>

datatype action =
    SetFiles "File list"
  | SetActiveFileIndex nat
  | SetData "ShipmentData option"
  | SetIsLoading bool
  | Alert string
  | ConsoleError string
  | AxiosPost string body "(string \<times> string) list"

fun exec :: "action \<Rightarrow> world \<Rightarrow> world" where
  "exec (SetFiles fs) w = w\<lparr>files := fs\<rparr>"
| "exec (SetActiveFileIndex i) w = w\<lparr>activeFileIndex := i\<rparr>"
| "exec (SetData d) w = w\<lparr>data := d\<rparr>"
| "exec (SetIsLoading b) w = w\<lparr>isLoading := b\<rparr>"
| "exec (Alert m) w = w\<lparr>alerts := alerts w @ [m]\<rparr>"
| "exec (ConsoleError m) w = w\<lparr>console := console w @ [m]\<rparr>"
| "exec (AxiosPost u b h) w =
     w\<lparr>network := network w @ [\<lparr>url = buildFullPath (baseURL w) u, payload = b, headers = h\<rparr>],
       inflight := Suc (inflight w)\<rparr>"

definition run :: "action list \<Rightarrow> world \<Rightarrow> world" where
  "run as w = fold exec as w"

text \<open>The world at the moment the first request of a handler is handed to axios.\<close>

fun world_at_post :: "action list \<Rightarrow> world \<Rightarrow> world option" where
  "world_at_post [] w = None"
| "world_at_post (AxiosPost u b h # as) w = Some w"
| "world_at_post (a # as) w = world_at_post as (exec a w)"

subsection \<open>\<open>handleFilesSelected\<close>\<close>

definition hasPdf :: "File list \<Rightarrow> bool" where
  "hasPdf selectedFiles = list_ex (\<lambda>f. endsWith (toLowerCase (name f)) ''.pdf'') selectedFiles"

definition hasExcel :: "File list \<Rightarrow> bool" where
  "hasExcel selectedFiles =
     list_ex (\<lambda>f. endsWith (toLowerCase (name f)) ''.xlsx''
                \<or> endsWith (toLowerCase (name f)) ''.xls'') selectedFiles"

definition validationMessage :: string where
  "validationMessage =
     ''Please upload both a PDF (Bill of Lading) and an Excel file (Packing List/Invoice) to proceed.''"

definition extractionFailedMessage :: string where
  "extractionFailedMessage = ''Failed to extract data. Please check the console for details.''"

definition formDataOf :: "File list \<Rightarrow> body" where
  "formDataOf selectedFiles = FormData (map (\<lambda>f. (''files'', f)) selectedFiles)"

text \<open>
  \<open>handleFilesSelected\<close> is an \<open>async\<close> function. Lines 15 to 41 run at once, up to the
  \<open>await\<close> of \<open>axios.post\<close>; lines 42 to 48 run when the request settles, with the
  response body (\<open>Inr\<close>) or the error that rejected the promise (\<open>Inl\<close>).
\<close>

definition handleFilesSelected :: "File list \<Rightarrow> action list" where
  "handleFilesSelected selectedFiles =
     (if \<not> hasPdf selectedFiles \<or> \<not> hasExcel selectedFiles
      then [Alert validationMessage]
      else [SetFiles selectedFiles,
            SetIsLoading True,
            SetData None,
            AxiosPost ''http://localhost:8000/process-documents'' (formDataOf selectedFiles)
              [(''Content-Type'', ''multipart/form-data'')]])"

definition handleFilesSelected_settled :: "string + ShipmentData \<Rightarrow> action list" where
  "handleFilesSelected_settled outcome =
     (case outcome of
        Inr response_data \<Rightarrow> [SetData (Some response_data)]
      | Inl err \<Rightarrow> [ConsoleError (''Extraction failed: '' @ err), Alert extractionFailedMessage])
     @ [SetIsLoading False]"

subsection \<open>\<open>FileUpload.tsx\<close>\<close>

text \<open>
  The two handlers of the intake surface, given the \<open>isLoading\<close> prop. They either call
  the \<open>onFilesSelected\<close> prop with the files of the event or do not.
\<close>

datatype upload_action = PreventDefault | OnFilesSelected "File list"

definition handleDrop :: "bool \<Rightarrow> File list \<Rightarrow> upload_action list" where
  "handleDrop loading droppedFiles =
     PreventDefault # (if loading then [] else [OnFilesSelected droppedFiles])"

definition handleChange :: "bool \<Rightarrow> File list option \<Rightarrow> upload_action list" where
  "handleChange loading target_files =
     (case target_files of
        Some selectedFiles \<Rightarrow> if \<not> loading then [OnFilesSelected selectedFiles] else []
      | None \<Rightarrow> [])"

text \<open>\<open>App\<close> passes \<open>handleFilesSelected\<close> as the \<open>onFilesSelected\<close> prop.\<close>

fun upload_effects :: "upload_action \<Rightarrow> action list" where
  "upload_effects PreventDefault = []"
| "upload_effects (OnFilesSelected fs) = handleFilesSelected fs"

subsection \<open>What \<open>App\<close> renders, and the events the rendered page can deliver\<close>

text \<open>\<open>files[activeFileIndex]\<close>: \<open>undefined\<close> when the index is out of range.\<close>

definition activeFile :: "File list \<Rightarrow> nat \<Rightarrow> File option" where
  "activeFile fs i = (if i < length fs then Some (fs ! i) else None)"

datatype screen = UploadScreen | NoDocumentSelected | Preview File

definition rendered :: "world \<Rightarrow> screen" where
  "rendered w =
     (if length (files w) = 0 then UploadScreen
      else case activeFile (files w) (activeFileIndex w) of
             None \<Rightarrow> NoDocumentSelected
           | Some f \<Rightarrow> Preview f)"

text \<open>
  The Reset button is rendered when \<open>files.length > 0\<close> and disabled while loading; the
  tab strip is rendered by \<open>DocViewer\<close> only past its \<open>if (!activeFile)\<close> return, one
  tab per file.
\<close>

definition resetEnabled :: "world \<Rightarrow> bool" where
  "resetEnabled w = (length (files w) > 0 \<and> \<not> isLoading w)"

definition tabEnabled :: "nat \<Rightarrow> world \<Rightarrow> bool" where
  "tabEnabled i w =
     (length (files w) \<noteq> 0 \<and> activeFile (files w) (activeFileIndex w) \<noteq> None
      \<and> i < length (files w))"

datatype event =
    Drop "File list"
  | Change "File list option"
  | Settled "string + ShipmentData"
  | TabClick nat
  | ResetClick

fun step :: "event \<Rightarrow> world \<Rightarrow> world" where
  "step (Drop droppedFiles) w =
     (if rendered w = UploadScreen
      then run (concat (map upload_effects (handleDrop (isLoading w) droppedFiles))) w
      else w)"
| "step (Change target_files) w =
     (if rendered w = UploadScreen
      then run (concat (map upload_effects (handleChange (isLoading w) target_files))) w
      else w)"
| "step (Settled outcome) w =
     (if inflight w > 0
      then run (handleFilesSelected_settled outcome) (w\<lparr>inflight := inflight w - 1\<rparr>)
      else w)"
| "step (TabClick i) w = (if tabEnabled i w then run [SetActiveFileIndex i] w else w)"
| "step ResetClick w = (if resetEnabled w then run [SetFiles []] w else w)"

definition run_events :: "event list \<Rightarrow> world \<Rightarrow> world" where
  "run_events evs w = fold step evs w"

definition initial_world :: "string option \<Rightarrow> world" where
  "initial_world VITE_API_URL =
     \<lparr>files = [], activeFileIndex = 0, data = None, isLoading = False,
      alerts = [], console = [], network = [], inflight = 0,
      baseURL = configuredBaseURL VITE_API_URL\<rparr>"

section \<open>The document preview (\<open>DocViewer\<close>)\<close>

text \<open>
  The four \<open>useState\<close> cells of \<open>DocViewer\<close>. Page numbers are JavaScript numbers that
  the component only increments and decrements, so they are integers. A parsed sheet is a
  list of rows of cells.
\<close>

record viewer_state =
  numPages :: int
  pageNumber :: int
  fileUrl :: "string option"
  excelData :: "string list list option"

text \<open>
  The effects of the \<open>useEffect\<close> body (lines 23 to 50), in program order.
  \<open>CreateObjectURL f u\<close> is the call \<open>URL.createObjectURL(f)\<close> returning \<open>u\<close>;
  \<open>ReadAsArrayBuffer f\<close> starts the asynchronous read of \<open>f\<close>.
\<close>

datatype viewer_action =
    SetNumPages int
  | SetPageNumber int
  | SetFileUrl "string option"
  | SetExcelData "string list list option"
  | CreateObjectURL File string
  | ReadAsArrayBuffer File

text \<open>
  A mounted viewer: its state, the props \<open>files\<close> and \<open>activeFileIndex\<close> it was last
  rendered with, the object URLs it holds and the number of file reads that have not
  completed. While a viewer stays mounted its \<open>files\<close> prop does not change: \<open>App\<close>
  replaces the file set only from the upload screen, where no viewer is mounted.
\<close>

record viewer = viewer_state +
  viewerFiles :: "File list"
  viewerActiveFileIndex :: nat
  objectUrls :: "string list"
  pendingReads :: nat

text \<open>Line 21: \<open>const activeFile = files[activeFileIndex]\<close>.\<close>

definition shown :: "viewer \<Rightarrow> File option" where
  "shown v = activeFile (viewerFiles v) (viewerActiveFileIndex v)"

fun viewer_exec :: "viewer_action \<Rightarrow> viewer \<Rightarrow> viewer" where
  "viewer_exec (SetNumPages n) v = v\<lparr>numPages := n\<rparr>"
| "viewer_exec (SetPageNumber p) v = v\<lparr>pageNumber := p\<rparr>"
| "viewer_exec (SetFileUrl u) v = v\<lparr>fileUrl := u\<rparr>"
| "viewer_exec (SetExcelData d) v = v\<lparr>excelData := d\<rparr>"
| "viewer_exec (CreateObjectURL f u) v = v\<lparr>objectUrls := objectUrls v @ [u]\<rparr>"
| "viewer_exec (ReadAsArrayBuffer f) v = v\<lparr>pendingReads := Suc (pendingReads v)\<rparr>"

definition viewer_run :: "viewer_action list \<Rightarrow> viewer \<Rightarrow> viewer" where
  "viewer_run as v = fold viewer_exec as v"

definition isPdf :: "File \<Rightarrow> bool" where
  "isPdf f = endsWith (toLowerCase (name f)) ''.pdf''"

definition isExcel :: "File \<Rightarrow> bool" where
  "isExcel f =
     (endsWith (toLowerCase (name f)) ''.xlsx'' \<or> endsWith (toLowerCase (name f)) ''.xls'')"

definition resetActions :: "viewer_action list" where
  "resetActions = [SetNumPages 0, SetPageNumber 1, SetFileUrl None, SetExcelData None]"

text \<open>
  The effect body for the file the viewer is now rendered with; \<open>u\<close> is the URL that
  \<open>URL.createObjectURL\<close> returns if it is called.
\<close>

definition activeFileEffect :: "File option \<Rightarrow> string \<Rightarrow> viewer_action list" where
  "activeFileEffect active u =
     (case active of
        None \<Rightarrow> []
      | Some f \<Rightarrow>
          resetActions @
          (let lowerName = toLowerCase (name f)
           in if endsWith lowerName ''.pdf'' then [CreateObjectURL f u, SetFileUrl (Some u)]
              else if endsWith lowerName ''.xlsx'' \<or> endsWith lowerName ''.xls''
              then [ReadAsArrayBuffer f]
              else []))"

text \<open>The actions that load content: creating the object URL, starting the file read.\<close>

definition isLoad :: "viewer_action \<Rightarrow> bool" where
  "isLoad a = (case a of CreateObjectURL f u \<Rightarrow> True | ReadAsArrayBuffer f \<Rightarrow> True | _ \<Rightarrow> False)"

text \<open>
  The cleanup returned by the PDF branch of the effect revokes the URL that branch
  created, which is the one \<open>fileUrl\<close> holds; it runs before the next effect.
\<close>

definition cleanup :: "viewer \<Rightarrow> viewer" where
  "cleanup v =
     (case fileUrl v of
        None \<Rightarrow> v
      | Some u \<Rightarrow> v\<lparr>objectUrls := removeAll u (objectUrls v)\<rparr>)"

text \<open>
  What the viewer renders below the tab strip: the PDF document (with or without the
  page controls), the table, or the placeholder.
\<close>

definition documentRendered :: "viewer \<Rightarrow> bool" where
  "documentRendered v = (case shown v of None \<Rightarrow> False | Some f \<Rightarrow> isPdf f \<and> fileUrl v \<noteq> None)"

definition controlsRendered :: "viewer \<Rightarrow> bool" where
  "controlsRendered v = (documentRendered v \<and> numPages v > 1)"

definition prevDisabled :: "viewer \<Rightarrow> bool" where
  "prevDisabled v = (pageNumber v \<le> 1)"

definition nextDisabled :: "viewer \<Rightarrow> bool" where
  "nextDisabled v = (pageNumber v \<ge> numPages v)"

definition prevClick :: "viewer \<Rightarrow> viewer" where
  "prevClick v =
     (if controlsRendered v \<and> \<not> prevDisabled v then v\<lparr>pageNumber := pageNumber v - 1\<rparr> else v)"

definition nextClick :: "viewer \<Rightarrow> viewer" where
  "nextClick v =
     (if controlsRendered v \<and> \<not> nextDisabled v then v\<lparr>pageNumber := pageNumber v + 1\<rparr> else v)"

text \<open>
  The events a mounted viewer receives. \<open>Activate i u\<close>: the tab of index \<open>i\<close> is
  clicked (tabs are rendered past the \<open>if (!activeFile)\<close> return, one per file); when
  that changes the active file, the cleanup of the previous effect runs and then the
  effect, in which \<open>URL.createObjectURL\<close> would return \<open>u\<close>.
  \<open>DocumentLoadSuccess\<close>: the PDF library finished loading the rendered document and
  calls \<open>onDocumentLoadSuccess\<close> with the number of pages of that document, which the
  parameter \<open>pageCount\<close> gives for each file. \<open>ReaderLoad rows\<close>: a pending file read
  completed and its first sheet parsed to \<open>rows\<close>.
\<close>

datatype viewer_event =
    Activate nat string
  | DocumentLoadSuccess
  | PrevClick
  | NextClick
  | ReaderLoad "string list list"

fun viewer_step :: "(File \<Rightarrow> int) \<Rightarrow> viewer_event \<Rightarrow> viewer \<Rightarrow> viewer" where
  "viewer_step pageCount (Activate i u) v =
     (if shown v = None \<or> \<not> i < length (viewerFiles v) \<or> i = viewerActiveFileIndex v then v
      else viewer_run (activeFileEffect (activeFile (viewerFiles v) i) u)
             ((cleanup v)\<lparr>viewerActiveFileIndex := i\<rparr>))"
| "viewer_step pageCount DocumentLoadSuccess v =
     (case shown v of
        Some f \<Rightarrow> if documentRendered v then viewer_run [SetNumPages (pageCount f)] v else v
      | None \<Rightarrow> v)"
| "viewer_step pageCount PrevClick v = prevClick v"
| "viewer_step pageCount NextClick v = nextClick v"
| "viewer_step pageCount (ReaderLoad rows) v =
     (if pendingReads v > 0
      then viewer_run [SetExcelData (Some rows)] (v\<lparr>pendingReads := pendingReads v - 1\<rparr>)
      else v)"

text \<open>Mounting: the initial \<open>useState\<close> values, then the effect for the first file.\<close>

definition mount :: "File list \<Rightarrow> nat \<Rightarrow> string \<Rightarrow> viewer" where
  "mount fs i u =
     viewer_run (activeFileEffect (activeFile fs i) u)
       \<lparr>numPages = 0, pageNumber = 1, fileUrl = None, excelData = None,
        viewerFiles = fs, viewerActiveFileIndex = i, objectUrls = [], pendingReads = 0\<rparr>"

definition viewer_after ::
  "(File \<Rightarrow> int) \<Rightarrow> File list \<Rightarrow> nat \<Rightarrow> string \<Rightarrow> viewer_event list \<Rightarrow> viewer" where
  "viewer_after pageCount fs i u evs = fold (viewer_step pageCount) evs (mount fs i u)"

text \<open>
  The invariant of a mounted viewer: the page is at least 1; it is 1 or at most the
  page count; and the page count is 0 (not learned yet) or the count of the active file.
\<close>

definition viewer_inv :: "(File \<Rightarrow> int) \<Rightarrow> viewer \<Rightarrow> bool" where
  "viewer_inv pageCount v =
     (1 \<le> pageNumber v
      \<and> (pageNumber v = 1 \<or> pageNumber v \<le> numPages v)
      \<and> (numPages v = 0
          \<or> (case shown v of None \<Rightarrow> False | Some f \<Rightarrow> numPages v = pageCount f)))"

section \<open>The extraction form (\<open>ExtractionForm.tsx\<close>)\<close>

datatype SaveStatus = Idle | Saving | Success | Error

text \<open>
  The form: the save status, the values held by the form library, the clock (in
  milliseconds), the times at which pending \<open>setTimeout\<close> callbacks are due, and the
  number of save requests that have not settled yet. Every callback the component
  schedules is \<open>() => setSaveStatus('idle')\<close>, so a timer is its due time. The
  component never calls \<open>clearTimeout\<close>: a timer stays pending until it fires.
\<close>

record form =
  saveStatus :: SaveStatus
  formValues :: ShipmentData
  now :: nat
  timers :: "nat list"
  formConsole :: "string list"
  formNetwork :: "request list"
  formBaseURL :: string
  formInflight :: nat

datatype form_action =
    SetSaveStatus SaveStatus
  | SavePost string body
  | SaveConsoleError string
  | SetTimeoutIdle nat

fun form_exec :: "form_action \<Rightarrow> form \<Rightarrow> form" where
  "form_exec (SetSaveStatus s) w = w\<lparr>saveStatus := s\<rparr>"
| "form_exec (SavePost u b) w =
     w\<lparr>formNetwork := formNetwork w @ [\<lparr>url = buildFullPath (formBaseURL w) u, payload = b, headers = []\<rparr>],
       formInflight := Suc (formInflight w)\<rparr>"
| "form_exec (SaveConsoleError m) w = w\<lparr>formConsole := formConsole w @ [m]\<rparr>"
| "form_exec (SetTimeoutIdle ms) w = w\<lparr>timers := timers w @ [now w + ms]\<rparr>"

definition form_run :: "form_action list \<Rightarrow> form \<Rightarrow> form" where
  "form_run as w = fold form_exec as w"

text \<open>
  \<open>handleSaveToBackend\<close>: lines 53 to 56 run on the click, with \<open>currentData\<close> the
  result of \<open>getValues()\<close>; lines 57 to 63 run when the request settles.
\<close>

definition handleSaveToBackend :: "ShipmentData \<Rightarrow> form_action list" where
  "handleSaveToBackend currentData =
     [SetSaveStatus Saving, SavePost ''/save-shipment'' (Json currentData)]"


definition saveClick :: "form \<Rightarrow> form" where
  "saveClick w =
     (if saveStatus w = Saving \<or> saveStatus w = Success then w
      else form_run (handleSaveToBackend (formValues w)) w)"


text \<open>A freshly mounted form: no field has a value yet.\<close>

definition emptyValues :: ShipmentData where
  "emptyValues =
     \<lparr>bill_of_lading_number = None, container_number = None, consignee_name = None,
      consignee_address = None, date_of_export = None, line_items_count = None,
      total_gross_weight = None, total_invoice_amount = None,
      average_gross_weight = None, average_price = None\<rparr>"

definition initial_form :: "string option \<Rightarrow> form" where
  "initial_form VITE_API_URL =
     \<lparr>saveStatus = Idle, formValues = emptyValues, now = 0, timers = [],
      formConsole = [], formNetwork = [], formBaseURL = configuredBaseURL VITE_API_URL,
      formInflight = 0\<rparr>"




section \<open>Sample inputs\<close>

definition sample_pdf :: File where
  "sample_pdf = \<lparr>name = ''BL-2024.PDF'', bytes = [37, 80, 68, 70]\<rparr>"

definition sample_xlsx :: File where
  "sample_xlsx = \<lparr>name = ''packing_list.xlsx'', bytes = [80, 75, 3, 4]\<rparr>"

definition sample_txt :: File where
  "sample_txt = \<lparr>name = ''notes.txt'', bytes = [104, 105]\<rparr>"

definition sample_record :: ShipmentData where
  "sample_record =
     \<lparr>bill_of_lading_number = Some ''BOL123'', container_number = Some ''MSCU1234567'',
      consignee_name = Some ''ACME'', consignee_address = None,
      date_of_export = Some ''2024-05-01'', line_items_count = Some 4,
      total_gross_weight = Some 400, total_invoice_amount = Some 1000,
      average_gross_weight = Some 100, average_price = Some 250\<rparr>"

text \<open>
  A session of the page: three files are uploaded and extracted, the third tab is
  selected, the set is reset, and two files are uploaded and extracted.
\<close>

definition stale_index_session :: "event list" where
  "stale_index_session =
     [Drop [sample_pdf, sample_xlsx, sample_txt], Settled (Inr sample_record), TabClick 2,
      ResetClick,
      Drop [sample_pdf, sample_xlsx], Settled (Inr sample_record)]"

text \<open>
  Sample worlds: an extraction in flight, the page after the third tab was selected, a
  viewer on page 2 of a three-page PDF, and a form holding an extracted record.
\<close>

definition loading_world :: world where
  "loading_world = run_events [Drop [sample_pdf, sample_xlsx]] (initial_world None)"

definition third_tab_world :: world where
  "third_tab_world =
     run_events [Drop [sample_pdf, sample_xlsx, sample_txt], Settled (Inr sample_record),
                 TabClick 2] (initial_world None)"

definition stale_record_world :: world where
  "stale_record_world = (initial_world None)\<lparr>data := Some sample_record\<rparr>"

definition page_two_viewer :: viewer where
  "page_two_viewer =
     viewer_after (\<lambda>f. 3) [sample_pdf, sample_xlsx] 0 ''blob:1'' [DocumentLoadSuccess, NextClick]"





section \<open>Running a list of effects\<close>

lemma run_Nil: "run [] w = w"
  by (simp add: run_def)

lemma run_Cons: "run (a # as) w = run as (exec a w)"
  by (simp add: run_def)

lemma viewer_run_Nil: "viewer_run [] v = v"
  by (simp add: viewer_run_def)

lemma viewer_run_Cons: "viewer_run (a # as) v = viewer_run as (viewer_exec a v)"
  by (simp add: viewer_run_def)



section \<open>The two outcomes of the validation\<close>

lemma rejected_actions:
  "\<not> hasPdf sel \<or> \<not> hasExcel sel \<Longrightarrow> handleFilesSelected sel = [Alert validationMessage]"
  by (auto simp: handleFilesSelected_def)

lemma accepted_actions:
  "hasPdf sel \<Longrightarrow> hasExcel sel \<Longrightarrow>
   handleFilesSelected sel =
     [SetFiles sel, SetIsLoading True, SetData None,
      AxiosPost ''http://localhost:8000/process-documents'' (formDataOf sel)
        [(''Content-Type'', ''multipart/form-data'')]]"
  by (simp add: handleFilesSelected_def)

lemma settled_failure_actions:
  "handleFilesSelected_settled (Inl err) =
     [ConsoleError (''Extraction failed: '' @ err), Alert extractionFailedMessage,
      SetIsLoading False]"
  by (simp add: handleFilesSelected_settled_def)

lemma settled_success_actions:
  "handleFilesSelected_settled (Inr resp) = [SetData (Some resp), SetIsLoading False]"
  by (simp add: handleFilesSelected_settled_def)

lemma sample_selection_accepted:
  "hasPdf [sample_pdf, sample_xlsx]" "hasExcel [sample_pdf, sample_xlsx]"
  by code_simp+

text \<open>
  The suffix test ignores case: a name is recognised exactly when the part of it as long
  as the extension, taken from its end, lower-cases to the extension.
\<close>

lemma endsWith_toLowerCase:
  "endsWith (toLowerCase n) ext
     \<longleftrightarrow> length ext \<le> length n \<and> toLowerCase (drop (length n - length ext) n) = ext"
  by (simp add: endsWith_def toLowerCase_def drop_map)

section \<open>File intake and the extraction request\<close>

text \<open>
  Claim C3. A selection without a file whose lower-cased name ends in \<open>.pdf\<close>, or
  without one whose lower-cased name ends in \<open>.xlsx\<close> or \<open>.xls\<close>, is rejected: the
  handler's only effect is the blocking alert; it returns without handing a request to
  axios, and the file set, the extracted record, the loading flag, the request log and
  the count of requests in flight are what they were.
\<close>

theorem incomplete_selection_rejected:
  assumes "\<not> hasPdf sel \<or> \<not> hasExcel sel"
  shows "handleFilesSelected sel = [Alert validationMessage]
       \<and> world_at_post (handleFilesSelected sel) w = None
       \<and> alerts (run (handleFilesSelected sel) w) = alerts w @ [validationMessage]
       \<and> network (run (handleFilesSelected sel) w) = network w
       \<and> inflight (run (handleFilesSelected sel) w) = inflight w
       \<and> files (run (handleFilesSelected sel) w) = files w
       \<and> data (run (handleFilesSelected sel) w) = data w
       \<and> isLoading (run (handleFilesSelected sel) w) = isLoading w"
  using rejected_actions [OF assms] by (simp add: run_Cons run_Nil)

theorem incomplete_selection_rejected_witness:
  "\<not> hasPdf [sample_txt, sample_xlsx]
   \<and> alerts (run (handleFilesSelected [sample_txt, sample_xlsx]) stale_record_world)
       = [validationMessage]
   \<and> network (run (handleFilesSelected [sample_txt, sample_xlsx]) stale_record_world) = []
   \<and> files (run (handleFilesSelected [sample_txt, sample_xlsx]) stale_record_world) = []
   \<and> data (run (handleFilesSelected [sample_txt, sample_xlsx]) stale_record_world)
       = Some sample_record
   \<and> isLoading (run (handleFilesSelected [sample_txt, sample_xlsx]) stale_record_world) = False"
proof -
  have h: "\<not> hasPdf [sample_txt, sample_xlsx]"
    by code_simp
  have w: "alerts stale_record_world = []" "network stale_record_world = []"
    "files stale_record_world = []" "data stale_record_world = Some sample_record"
    "isLoading stale_record_world = False"
    by (simp_all add: stale_record_world_def initial_world_def)
  from h have "\<not> hasPdf [sample_txt, sample_xlsx] \<or> \<not> hasExcel [sample_txt, sample_xlsx]"
    by simp
  from incomplete_selection_rejected [OF this, of stale_record_world] h w show ?thesis
    by auto
qed

text \<open>
  Claim C4. On an accepted selection the extracted record is already null in the world in
  which the request is handed to axios, and null when the handler reaches its
  \<open>await\<close>. A failed request leaves the record of any world as it is, so after an
  accepted submission it stays null; a successful one replaces it by the response body.
\<close>

theorem record_nulled_before_request_replaced_on_success:
  assumes "hasPdf sel" and "hasExcel sel"
  shows "(\<exists>w1. world_at_post (handleFilesSelected sel) w = Some w1 \<and> data w1 = None)
       \<and> data (run (handleFilesSelected sel) w) = None
       \<and> data (run (handleFilesSelected_settled (Inl err)) w') = data w'
       \<and> data (run (handleFilesSelected_settled (Inl err)) (run (handleFilesSelected sel) w))
           = None
       \<and> data (run (handleFilesSelected_settled (Inr resp)) w') = Some resp"
  by (simp add: accepted_actions [OF assms] settled_failure_actions settled_success_actions
        run_Cons run_Nil)

theorem record_nulled_before_request_replaced_on_success_witness:
  "hasPdf [sample_pdf, sample_xlsx] \<and> hasExcel [sample_pdf, sample_xlsx]
   \<and> data stale_record_world = Some sample_record
   \<and> data (run (handleFilesSelected [sample_pdf, sample_xlsx]) stale_record_world) = None
   \<and> data (run (handleFilesSelected_settled (Inl ''Network Error''))
              (run (handleFilesSelected [sample_pdf, sample_xlsx]) stale_record_world)) = None
   \<and> data (run (handleFilesSelected_settled (Inr emptyValues))
              (run (handleFilesSelected [sample_pdf, sample_xlsx]) stale_record_world))
       = Some emptyValues"
proof -
  have w: "data stale_record_world = Some sample_record"
    by (simp add: stale_record_world_def)
  from record_nulled_before_request_replaced_on_success
         [OF sample_selection_accepted,
          where w = stale_record_world and err = "''Network Error''" and resp = emptyValues
            and w' = "run (handleFilesSelected [sample_pdf, sample_xlsx]) stale_record_world"]
       sample_selection_accepted w
  show ?thesis
    by auto
qed

text \<open>
  Claim C5. On a selection with a PDF and a spreadsheet the submission proceeds: one
  request is handed to axios, and in the world in which that happens the loading flag is
  already true. When the request settles, with a response or with an error, the last
  effect of the handler sets the flag false, so it is false afterwards on both paths.
\<close>

theorem loading_true_before_request_false_once_settled:
  assumes "hasPdf sel" and "hasExcel sel"
  shows "(\<exists>w1. world_at_post (handleFilesSelected sel) w = Some w1 \<and> isLoading w1)
       \<and> length (network (run (handleFilesSelected sel) w)) = Suc (length (network w))
       \<and> isLoading (run (handleFilesSelected sel) w)
       \<and> \<not> isLoading (run (handleFilesSelected_settled (Inr resp)) w')
       \<and> \<not> isLoading (run (handleFilesSelected_settled (Inl err)) w')
       \<and> last (handleFilesSelected_settled (Inr resp)) = SetIsLoading False
       \<and> last (handleFilesSelected_settled (Inl err)) = SetIsLoading False"
  by (simp add: accepted_actions [OF assms] settled_failure_actions settled_success_actions
        run_Cons run_Nil)

theorem loading_true_before_request_false_once_settled_witness:
  "hasPdf [sample_pdf, sample_xlsx] \<and> hasExcel [sample_pdf, sample_xlsx]
   \<and> isLoading (run (handleFilesSelected [sample_pdf, sample_xlsx]) (initial_world None))
   \<and> length (network (run (handleFilesSelected [sample_pdf, sample_xlsx]) (initial_world None)))
       = 1
   \<and> \<not> isLoading (run (handleFilesSelected_settled (Inr sample_record))
                  (run (handleFilesSelected [sample_pdf, sample_xlsx]) (initial_world None)))
   \<and> \<not> isLoading (run (handleFilesSelected_settled (Inl ''Network Error''))
                  (run (handleFilesSelected [sample_pdf, sample_xlsx]) (initial_world None)))"
proof -
  have w: "network (initial_world None) = []"
    by (simp add: initial_world_def)
  from loading_true_before_request_false_once_settled
         [OF sample_selection_accepted,
          where w = "initial_world None" and err = "''Network Error''" and resp = sample_record
            and w' = "run (handleFilesSelected [sample_pdf, sample_xlsx]) (initial_world None)"]
       sample_selection_accepted w
  show ?thesis
    by auto
qed

text \<open>
  Claim C9. While the loading flag is true, a drop only prevents the browser's default
  action and a file-picker change does nothing: neither calls \<open>onFilesSelected\<close>, and
  the whole world, request log and count of requests in flight included, is unchanged by
  either event.
\<close>

theorem intake_ignores_events_while_loading:
  assumes "isLoading w"
  shows "handleDrop (isLoading w) fs = [PreventDefault]
       \<and> handleChange (isLoading w) tf = []
       \<and> step (Drop fs) w = w
       \<and> step (Change tf) w = w"
  using assms by (simp add: handleDrop_def handleChange_def run_Nil split: option.split)

theorem intake_ignores_events_while_loading_witness:
  "isLoading loading_world
   \<and> inflight loading_world = 1
   \<and> handleDrop (isLoading loading_world) [sample_pdf, sample_xlsx] = [PreventDefault]
   \<and> handleChange (isLoading loading_world) (Some [sample_pdf, sample_xlsx]) = []
   \<and> step (Drop [sample_pdf, sample_xlsx]) loading_world = loading_world
   \<and> step (Change (Some [sample_pdf, sample_xlsx])) loading_world = loading_world"
proof -
  have h: "isLoading loading_world" "inflight loading_world = 1"
    by code_simp+
  from intake_ignores_events_while_loading
         [OF h(1), where fs = "[sample_pdf, sample_xlsx]" and tf = "Some [sample_pdf, sample_xlsx]"]
       h
  show ?thesis
    by auto
qed

section \<open>Reset and the active selection index\<close>

text \<open>
  Claim C10. The Reset button is enabled only while the loading flag is false. A click on
  the enabled button empties the file set and changes nothing else: the extracted
  record, the active selection index and the loading flag keep their values.
\<close>

theorem reset_only_empties_file_set:
  assumes "resetEnabled w"
  shows "\<not> isLoading w
       \<and> step ResetClick w = w\<lparr>files := []\<rparr>
       \<and> files (step ResetClick w) = []
       \<and> data (step ResetClick w) = data w
       \<and> activeFileIndex (step ResetClick w) = activeFileIndex w
       \<and> isLoading (step ResetClick w) = isLoading w"
  using assms by (simp add: resetEnabled_def run_Cons run_Nil)

theorem reset_only_empties_file_set_witness:
  "resetEnabled third_tab_world
   \<and> length (files third_tab_world) = 3
   \<and> files (step ResetClick third_tab_world) = []
   \<and> data (step ResetClick third_tab_world) = Some sample_record
   \<and> activeFileIndex (step ResetClick third_tab_world) = 2
   \<and> isLoading (step ResetClick third_tab_world) = False"
proof -
  have h: "resetEnabled third_tab_world"
    by code_simp
  have w: "length (files third_tab_world) = 3" "data third_tab_world = Some sample_record"
    "activeFileIndex third_tab_world = 2" "isLoading third_tab_world = False"
    by code_simp+
  from reset_only_empties_file_set [OF h] h w show ?thesis
    by auto
qed

text \<open>
  Claim C1, as the code has it. No event that changes the file set touches the active
  selection index: a drop, a file-picker change, a settled request and a Reset click all
  leave it as it was. The index is set only by a click on a rendered tab, and then to an
  index that is valid for the file set of that moment. When the file set is not empty and
  the index is not a valid index into it, the preview shows the "No document selected"
  placeholder.
\<close>

theorem index_kept_when_file_set_changes:
  "activeFileIndex (step (Drop fs) w) = activeFileIndex w
 \<and> activeFileIndex (step (Change tf) w) = activeFileIndex w
 \<and> activeFileIndex (step (Settled outcome) w) = activeFileIndex w
 \<and> activeFileIndex (step ResetClick w) = activeFileIndex w
 \<and> (tabEnabled i w \<longrightarrow>
       activeFileIndex (step (TabClick i) w) = i \<and> i < length (files (step (TabClick i) w)))
 \<and> (\<not> tabEnabled i w \<longrightarrow> step (TabClick i) w = w)
 \<and> (files w \<noteq> [] \<and> \<not> activeFileIndex w < length (files w) \<longrightarrow>
       rendered w = NoDocumentSelected)"
  by (simp add: handleDrop_def handleChange_def handleFilesSelected_def
        handleFilesSelected_settled_def run_def tabEnabled_def rendered_def resetEnabled_def
        activeFile_def split: option.split sum.split)

theorem index_kept_when_file_set_changes_witness:
  "tabEnabled 1 third_tab_world
   \<and> activeFileIndex third_tab_world = 2
   \<and> activeFileIndex (step (TabClick 1) third_tab_world) = 1
   \<and> activeFileIndex (step ResetClick third_tab_world) = 2
   \<and> activeFileIndex (step (Drop [sample_pdf, sample_xlsx]) (step ResetClick third_tab_world)) = 2
   \<and> files (run_events stale_index_session (initial_world None)) \<noteq> []
   \<and> \<not> activeFileIndex (run_events stale_index_session (initial_world None))
         < length (files (run_events stale_index_session (initial_world None)))
   \<and> rendered (run_events stale_index_session (initial_world None)) = NoDocumentSelected"
proof -
  have h: "tabEnabled 1 third_tab_world" "activeFileIndex third_tab_world = 2"
    "files (run_events stale_index_session (initial_world None)) \<noteq> []"
    "\<not> activeFileIndex (run_events stale_index_session (initial_world None))
         < length (files (run_events stale_index_session (initial_world None)))"
    by code_simp+
  from index_kept_when_file_set_changes [where w = third_tab_world and i = 1]
       index_kept_when_file_set_changes
         [where w = "step ResetClick third_tab_world" and fs = "[sample_pdf, sample_xlsx]"]
       index_kept_when_file_set_changes
         [where w = "run_events stale_index_session (initial_world None)"]
       h
  show ?thesis
    by auto
qed

text \<open>
  Claim C1, as stated, fails. In the sample session the third tab is selected, the set is
  reset and a set of two files is uploaded: the index is still 2, which is neither a
  valid index into the two files nor 0.
\<close>

theorem index_out_of_bounds_after_smaller_upload:
  "\<not> (activeFileIndex (run_events stale_index_session (initial_world None))
          < length (files (run_events stale_index_session (initial_world None)))
        \<or> activeFileIndex (run_events stale_index_session (initial_world None)) = 0)"
  by code_simp

section \<open>The origin of the two requests\<close>

text \<open>
  Claim C2, evaluated with the origin \<open>https://api.example.com\<close> configured. The save
  request goes to that origin. The extraction request does not: \<open>handleFilesSelected\<close>
  passes the absolute URL \<open>http://localhost:8000/process-documents\<close> to axios, which
  uses an absolute URL as it is.
\<close>

theorem extraction_request_ignores_configured_origin:
  "map url (network (run_events [Drop [sample_pdf, sample_xlsx]]
       (initial_world (Some ''https://api.example.com''))))
     = [''http://localhost:8000/process-documents'']
 \<and> map url (formNetwork (saveClick (initial_form (Some ''https://api.example.com''))))
     = [''https://api.example.com/save-shipment'']"
  by code_simp

section \<open>The document preview\<close>

lemma effect_result:
  "numPages (viewer_run (activeFileEffect (Some f) u) v) = 0
   \<and> pageNumber (viewer_run (activeFileEffect (Some f) u) v) = 1
   \<and> excelData (viewer_run (activeFileEffect (Some f) u) v) = None
   \<and> fileUrl (viewer_run (activeFileEffect (Some f) u) v) = (if isPdf f then Some u else None)
   \<and> viewerFiles (viewer_run (activeFileEffect (Some f) u) v) = viewerFiles v
   \<and> viewerActiveFileIndex (viewer_run (activeFileEffect (Some f) u) v)
       = viewerActiveFileIndex v"
  by (simp add: activeFileEffect_def resetActions_def viewer_run_Cons viewer_run_Nil Let_def
        isPdf_def)

lemma effect_None: "viewer_run (activeFileEffect None u) v = v"
  by (simp add: activeFileEffect_def viewer_run_Nil)

lemma inv_mount: "viewer_inv pageCount (mount fs i u)"
proof (cases "activeFile fs i")
  case None
  then show ?thesis
    by (simp add: mount_def effect_None viewer_inv_def)
next
  case (Some f)
  then show ?thesis
    by (simp add: mount_def effect_result viewer_inv_def)
qed

lemma inv_step:
  assumes "viewer_inv pageCount v"
  shows "viewer_inv pageCount (viewer_step pageCount ev v)"
proof (cases ev)
  case (Activate i u)
  show ?thesis
  proof (cases "shown v = None \<or> \<not> i < length (viewerFiles v) \<or> i = viewerActiveFileIndex v")
    case True
    with assms Activate show ?thesis
      by simp
  next
    case False
    then have "activeFile (viewerFiles v) i = Some (viewerFiles v ! i)"
      by (simp add: activeFile_def)
    with False Activate show ?thesis
      by (auto simp: effect_result viewer_inv_def)
  qed
next
  case DocumentLoadSuccess
  with assms show ?thesis
    by (auto simp: viewer_inv_def viewer_run_Cons viewer_run_Nil shown_def split: option.splits)
next
  case PrevClick
  with assms show ?thesis
    by (auto simp: viewer_inv_def prevClick_def prevDisabled_def controlsRendered_def shown_def
          split: option.splits)
next
  case NextClick
  with assms show ?thesis
    by (auto simp: viewer_inv_def nextClick_def nextDisabled_def controlsRendered_def shown_def
          split: option.splits)
next
  case (ReaderLoad rows)
  with assms show ?thesis
    by (auto simp: viewer_inv_def viewer_run_Cons viewer_run_Nil shown_def split: option.splits)
qed

lemma inv_fold:
  "viewer_inv pageCount v \<Longrightarrow> viewer_inv pageCount (fold (viewer_step pageCount) evs v)"
  by (induction evs arbitrary: v) (simp_all add: inv_step)

lemma inv_after: "viewer_inv pageCount (viewer_after pageCount fs i u evs)"
  by (simp add: viewer_after_def inv_fold inv_mount)

text \<open>
  Claim C6. Let \<open>v\<close> be any state a mounted viewer reaches. Its page number is at least
  1 and, once a page count of at least 1 has been learned, at most that count. The back
  control is disabled exactly when the page is at most 1 and the forward control exactly
  when the page is at least the count, and a click on a disabled control changes
  nothing. A click on an enabled control moves the page by one and leaves it between 1
  and the page count.
\<close>

theorem page_navigation_stays_in_bounds:
  assumes "v = viewer_after pageCount fs i u evs"
  shows "1 \<le> pageNumber v
       \<and> (1 \<le> numPages v \<longrightarrow> pageNumber v \<le> numPages v)
       \<and> (prevDisabled v \<longleftrightarrow> pageNumber v \<le> 1)
       \<and> (nextDisabled v \<longleftrightarrow> numPages v \<le> pageNumber v)
       \<and> (pageNumber v \<le> 1 \<longrightarrow> prevClick v = v)
       \<and> (numPages v \<le> pageNumber v \<longrightarrow> nextClick v = v)
       \<and> (controlsRendered v \<and> \<not> prevDisabled v \<longrightarrow>
            pageNumber (prevClick v) = pageNumber v - 1
            \<and> 1 \<le> pageNumber (prevClick v)
            \<and> pageNumber (prevClick v) \<le> numPages (prevClick v))
       \<and> (controlsRendered v \<and> \<not> nextDisabled v \<longrightarrow>
            pageNumber (nextClick v) = pageNumber v + 1
            \<and> 1 \<le> pageNumber (nextClick v)
            \<and> pageNumber (nextClick v) \<le> numPages (nextClick v))"
proof -
  have "viewer_inv pageCount v"
    using assms by (simp add: inv_after)
  then have b: "1 \<le> pageNumber v" "pageNumber v = 1 \<or> pageNumber v \<le> numPages v"
    by (simp_all add: viewer_inv_def)
  from b show ?thesis
    by (auto simp: prevDisabled_def nextDisabled_def prevClick_def nextClick_def)
qed

theorem page_navigation_stays_in_bounds_witness:
  "controlsRendered page_two_viewer
   \<and> \<not> prevDisabled page_two_viewer \<and> \<not> nextDisabled page_two_viewer
   \<and> numPages page_two_viewer = 3 \<and> pageNumber page_two_viewer = 2
   \<and> pageNumber (prevClick page_two_viewer) = 1
   \<and> pageNumber (nextClick page_two_viewer) = 3
   \<and> pageNumber (nextClick page_two_viewer) \<le> numPages (nextClick page_two_viewer)"
proof -
  have h: "controlsRendered page_two_viewer" "\<not> prevDisabled page_two_viewer"
    "\<not> nextDisabled page_two_viewer" "numPages page_two_viewer = 3"
    "pageNumber page_two_viewer = 2"
    by code_simp+
  from page_navigation_stays_in_bounds [OF page_two_viewer_def] h show ?thesis
    by auto
qed

lemma tab_switch_result:
  assumes "shown v \<noteq> None" and "i < length (viewerFiles v)" and "i \<noteq> viewerActiveFileIndex v"
  shows "shown (viewer_step pageCount (Activate i u) v) = Some (viewerFiles v ! i)
    \<and> numPages (viewer_step pageCount (Activate i u) v) = 0
    \<and> pageNumber (viewer_step pageCount (Activate i u) v) = 1
    \<and> excelData (viewer_step pageCount (Activate i u) v) = None
    \<and> fileUrl (viewer_step pageCount (Activate i u) v)
        = (if isPdf (viewerFiles v ! i) then Some u else None)"
proof -
  have af: "activeFile (viewerFiles v) i = Some (viewerFiles v ! i)"
    using assms by (simp add: activeFile_def)
  have st: "viewer_step pageCount (Activate i u) v
      = viewer_run (activeFileEffect (Some (viewerFiles v ! i)) u)
          ((cleanup v)\<lparr>viewerActiveFileIndex := i\<rparr>)"
    using assms af by auto
  have cl: "viewerFiles ((cleanup v)\<lparr>viewerActiveFileIndex := i\<rparr>) = viewerFiles v"
    by (simp add: cleanup_def split: option.split)
  show ?thesis
    unfolding st using assms(2) cl
    by (simp add: effect_result shown_def activeFile_def)
qed

text \<open>
  Claim C7. When a file becomes the active one, the effect first resets the page count to
  0, the page number to 1, the object URL to null and the parsed rows to null: these are
  its first four actions whatever the file's name is, and in the state reached just
  before the first action that loads content all four cells hold the reset values. Only
  a PDF or a spreadsheet name leads to a load. After the whole effect the page number is
  1, the page count 0, the rows null, and the URL is the new one for a PDF and null
  otherwise. A click on another tab of a mounted viewer runs that effect for the file of
  the tab.
\<close>

theorem activation_resets_before_loading:
  "take 4 (activeFileEffect (Some f) u) = resetActions
 \<and> takeWhile (\<lambda>a. \<not> isLoad a) (activeFileEffect (Some f) u) = resetActions
 \<and> numPages (viewer_run resetActions v) = 0
 \<and> pageNumber (viewer_run resetActions v) = 1
 \<and> fileUrl (viewer_run resetActions v) = None
 \<and> excelData (viewer_run resetActions v) = None
 \<and> list_ex isLoad (activeFileEffect (Some f) u) = (isPdf f \<or> isExcel f)
 \<and> numPages (viewer_run (activeFileEffect (Some f) u) v) = 0
 \<and> pageNumber (viewer_run (activeFileEffect (Some f) u) v) = 1
 \<and> excelData (viewer_run (activeFileEffect (Some f) u) v) = None
 \<and> fileUrl (viewer_run (activeFileEffect (Some f) u) v) = (if isPdf f then Some u else None)
 \<and> (shown v \<noteq> None \<and> i < length (viewerFiles v) \<and> i \<noteq> viewerActiveFileIndex v \<longrightarrow>
      shown (viewer_step pageCount (Activate i u) v) = Some (viewerFiles v ! i)
    \<and> numPages (viewer_step pageCount (Activate i u) v) = 0
    \<and> pageNumber (viewer_step pageCount (Activate i u) v) = 1
    \<and> excelData (viewer_step pageCount (Activate i u) v) = None
    \<and> fileUrl (viewer_step pageCount (Activate i u) v)
        = (if isPdf (viewerFiles v ! i) then Some u else None))"
proof -
  have a: "take 4 (activeFileEffect (Some f) u) = resetActions"
    by (simp add: activeFileEffect_def resetActions_def)
  have b: "takeWhile (\<lambda>a. \<not> isLoad a) (activeFileEffect (Some f) u) = resetActions"
    by (simp add: activeFileEffect_def resetActions_def isLoad_def Let_def)
  have c: "numPages (viewer_run resetActions v) = 0" "pageNumber (viewer_run resetActions v) = 1"
    "fileUrl (viewer_run resetActions v) = None" "excelData (viewer_run resetActions v) = None"
    by (simp_all add: resetActions_def viewer_run_Cons viewer_run_Nil)
  have d: "list_ex isLoad (activeFileEffect (Some f) u) = (isPdf f \<or> isExcel f)"
    by (simp add: activeFileEffect_def resetActions_def isLoad_def Let_def isPdf_def
          isExcel_def)
  from a b c d tab_switch_result [of v i pageCount u] effect_result [of f u v] show ?thesis
    by simp
qed

theorem activation_resets_before_loading_witness:
  "shown page_two_viewer \<noteq> None
   \<and> 1 < length (viewerFiles page_two_viewer)
   \<and> 1 \<noteq> viewerActiveFileIndex page_two_viewer
   \<and> pageNumber page_two_viewer = 2
   \<and> fileUrl page_two_viewer = Some ''blob:1''
   \<and> shown (viewer_step (\<lambda>f. 3) (Activate 1 ''blob:2'') page_two_viewer)
       = Some (viewerFiles page_two_viewer ! 1)
   \<and> pageNumber (viewer_step (\<lambda>f. 3) (Activate 1 ''blob:2'') page_two_viewer) = 1
   \<and> numPages (viewer_step (\<lambda>f. 3) (Activate 1 ''blob:2'') page_two_viewer) = 0
   \<and> excelData (viewer_step (\<lambda>f. 3) (Activate 1 ''blob:2'') page_two_viewer) = None"
proof -
  have h: "shown page_two_viewer \<noteq> None" "1 < length (viewerFiles page_two_viewer)"
    "1 \<noteq> viewerActiveFileIndex page_two_viewer" "pageNumber page_two_viewer = 2"
    "fileUrl page_two_viewer = Some ''blob:1''"
    by code_simp+
  from activation_resets_before_loading
         [where v = page_two_viewer and i = 1 and u = "''blob:2''" and pageCount = "\<lambda>f. 3"]
       h
  show ?thesis
    by simp
qed

section \<open>The save action\<close>









end
